theory Spec2Isabelle
  imports Complex_Main "HOL-Library.Word" "HOL-Library.Log_Nat"
begin

section \<open>Hyperparameters\<close>

text \<open>
  \<^verbatim>\<open>HyperParams = namedtuple("HyperParams", ["batch_size", "epochs", "hidden_layers"])\<close>

  A namedtuple is an untyped tuple with named positions, so the record is polymorphic in
  the three field types. The class offers a positional constructor and read access to the
  fields; it has no operation that assigns to a field.
\<close>

record ('b, 'e, 'h) HyperParams =
  batch_size :: 'b
  epochs :: 'e
  hidden_layers :: 'h

definition HyperParams_new :: "'b \<Rightarrow> 'e \<Rightarrow> 'h \<Rightarrow> ('b, 'e, 'h) HyperParams" where
  \<comment> \<open>The positional constructor: arguments are bound to the field names in declared order.\<close>
  "HyperParams_new b e h = \<lparr>batch_size = b, epochs = e, hidden_layers = h\<rparr>"

section \<open>Single precision arithmetic\<close>

text \<open>
  A finite float32 value is modelled by the rational number it denotes. \<open>float32_round\<close>
  is the rounding of IEEE 754 binary32 (24 bit significand, least normal exponent -126)
  to the nearest representable value, ties to the even significand; it is the rounding
  that a float32 division applies to the exact quotient. Results of magnitude
  \<open>2 ^ 128\<close> and above (which the format turns into infinity) are outside the range
  the program reaches: its quotients lie between 0 and 1.
\<close>

type_synonym float32 = rat

definition pow2 :: "int \<Rightarrow> rat" where
  "pow2 e = (if 0 \<le> e then 2 ^ nat e else 1 / 2 ^ nat (- e))"

definition ilog2 :: "rat \<Rightarrow> int" where
  \<comment> \<open>For \<open>0 < x\<close>: the exponent \<open>e\<close> with \<open>2 ^ e \<le> x < 2 ^ (e + 1)\<close>.\<close>
  "ilog2 x =
     (let (p, q) = quotient_of x; e = bitlen p - bitlen q
      in if pow2 e \<le> x then e else e - 1)"

definition round_half_even :: "rat \<Rightarrow> int" where
  "round_half_even x =
     (let f = \<lfloor>x\<rfloor>; r = x - of_int f
      in if r < 1 / 2 then f else if 1 / 2 < r then f + 1 else if even f then f else f + 1)"

definition float32_round :: "rat \<Rightarrow> float32" where
  "float32_round x =
     (if x = 0 then 0
      else let e = max (ilog2 \<bar>x\<bar>) (- 126);
               m = round_half_even (\<bar>x\<bar> * pow2 (23 - e))
           in sgn x * of_int m * pow2 (e - 23))"

definition is_float32 :: "rat \<Rightarrow> bool" where
  \<comment> \<open>The finite values of the format: an integer significand of at most 24 bits, scaled
      by a power of two within the exponent range.\<close>
  "is_float32 y = (\<exists>m e. y = of_int m * pow2 (e - 23) \<and> \<bar>m\<bar> < 2 ^ 24 \<and> - 126 \<le> e \<and> e \<le> 127)"

definition float32_div :: "float32 \<Rightarrow> float32 \<Rightarrow> float32" where
  \<comment> \<open>\<open>a / b\<close> on float32 tensors, elementwise, for a divisor other than zero.\<close>
  "float32_div a b = float32_round (a / b)"

section \<open>Normalisation of an example\<close>

type_synonym uint8 = "8 word"

definition tf_cast_float32 :: "uint8 \<Rightarrow> float32" where
  \<comment> \<open>\<open>tf.cast(image, tf.float32)\<close> on one element: every uint8 value is a float32 value.\<close>
  "tf_cast_float32 v = of_nat (unat v)"

text \<open>
  \<^verbatim>\<open>
  def normalize_img(image, label):
      return tf.cast(image, tf.float32) / 255., label
  \<close>
  The image tensor is the list \<open>img\<close> of its elements: the cast and the division act
  on each element alone.
\<close>

definition normalize_img :: "uint8 list \<Rightarrow> 'l \<Rightarrow> float32 list \<times> 'l" where
  "normalize_img img label =
     (map (\<lambda>x. float32_div x 255) (map tf_cast_float32 img), label)"

section \<open>Dataset pipelines\<close>

text \<open>
  The dataset library is outside the program. A dataset object is modelled by what the
  program determines about it: the dataset name, the read instruction of the split, the
  flags passed to the loader, and the sequence of transformations applied to it, in
  order. The metadata object of the loaded dataset (\<open>info\<close>) is an input of the model;
  it answers \<open>info.splits[name].num_examples\<close> and \<open>info.features[name].shape\<close>.
  The model describes the runs in which the loader returns; a failure of the loader ends
  the process before any of the code below runs.
\<close>

datatype py_error = ValueError

datatype split_spec = Slice string "nat option" "nat option"
  \<comment> \<open>\<open>'train[:90%]'\<close> is \<open>Slice ''train'' None (Some 90)\<close>, \<open>'train[90%:]'\<close> is
      \<open>Slice ''train'' (Some 90) None\<close>, \<open>'test'\<close> is \<open>Slice ''test'' None None\<close>.\<close>

record DatasetInfo =
  num_examples :: "string \<Rightarrow> nat"
  feature_shape :: "string \<Rightarrow> nat list"

datatype map_fn = Normalize_img

datatype tf_size = AUTOTUNE | Size int

datatype ds_op =
    Map map_fn tf_size
  | Cache
  | Shuffle int
  | Batch int
  | Prefetch tf_size

record Dataset =
  ds_name :: string
  ds_split :: split_spec
  ds_shuffle_files :: bool
  ds_as_supervised :: bool
  ds_ops :: "ds_op list"

definition tfds_load ::
  "DatasetInfo \<Rightarrow> string \<Rightarrow> split_spec list \<Rightarrow> bool \<Rightarrow> bool \<Rightarrow> Dataset list \<times> DatasetInfo" where
  \<comment> \<open>\<open>tfds.load(name, split=[...], shuffle_files=..., as_supervised=..., with_info=True)\<close>:
      one dataset per requested split, in the order requested, and the metadata.\<close>
  "tfds_load builder_info name split shuffle_files as_supervised =
     (map (\<lambda>s. \<lparr>ds_name = name, ds_split = s, ds_shuffle_files = shuffle_files,
                 ds_as_supervised = as_supervised, ds_ops = []\<rparr>) split,
      builder_info)"

definition Dataset_map :: "map_fn \<Rightarrow> tf_size \<Rightarrow> Dataset \<Rightarrow> Dataset" where
  "Dataset_map f num_parallel_calls d = d\<lparr>ds_ops := ds_ops d @ [Map f num_parallel_calls]\<rparr>"

definition Dataset_cache :: "Dataset \<Rightarrow> Dataset" where
  "Dataset_cache d = d\<lparr>ds_ops := ds_ops d @ [Cache]\<rparr>"

definition Dataset_shuffle :: "int \<Rightarrow> Dataset \<Rightarrow> Dataset" where
  "Dataset_shuffle buffer_size d = d\<lparr>ds_ops := ds_ops d @ [Shuffle buffer_size]\<rparr>"

definition Dataset_batch :: "int \<Rightarrow> Dataset \<Rightarrow> Dataset" where
  "Dataset_batch n d = d\<lparr>ds_ops := ds_ops d @ [Batch n]\<rparr>"

definition Dataset_prefetch :: "tf_size \<Rightarrow> Dataset \<Rightarrow> Dataset" where
  "Dataset_prefetch buffer_size d = d\<lparr>ds_ops := ds_ops d @ [Prefetch buffer_size]\<rparr>"

text \<open>
  \<^verbatim>\<open>
  def prepare_data(hp: HyperParams) -> Tuple[Any, Any, Any]:
      (train, dev, test), info = tfds.load(
          'mnist', split=['train[:90%]', 'train[90%:]', 'test'],
          shuffle_files=True, as_supervised=True, with_info=True)
      train = train.map(normalize_img, num_parallel_calls=tf.data.AUTOTUNE)
      train = train.cache()
      train = train.shuffle(info.splits['train'].num_examples)
      train = train.batch(hp.batch_size)
      train = train.prefetch(tf.data.AUTOTUNE)
      dev = dev.map(normalize_img, num_parallel_calls=tf.data.AUTOTUNE)
      dev = dev.batch(hp.batch_size)
      dev = dev.cache()
      dev = dev.prefetch(tf.data.AUTOTUNE)
      test = test.map(normalize_img, num_parallel_calls=tf.data.AUTOTUNE)
      test = test.batch(hp.batch_size)
      test = test.cache()
      test = test.prefetch(tf.data.AUTOTUNE)
      return train, dev, test, info
  \<close>
  Unpacking the three datasets raises ValueError unless the loader returned three.
\<close>

definition prepare_data ::
  "DatasetInfo \<Rightarrow> (int, 'e, 'h) HyperParams
     \<Rightarrow> py_error + (Dataset \<times> Dataset \<times> Dataset \<times> DatasetInfo)" where
  "prepare_data builder_info hp =
     (case tfds_load builder_info ''mnist''
             [Slice ''train'' None (Some 90), Slice ''train'' (Some 90) None,
              Slice ''test'' None None]
             True True of
        ([train, dev, test], info) \<Rightarrow>
          (let train = Dataset_map Normalize_img AUTOTUNE train;
               train = Dataset_cache train;
               train = Dataset_shuffle (int (num_examples info ''train'')) train;
               train = Dataset_batch (batch_size hp) train;
               train = Dataset_prefetch AUTOTUNE train;
               dev = Dataset_map Normalize_img AUTOTUNE dev;
               dev = Dataset_batch (batch_size hp) dev;
               dev = Dataset_cache dev;
               dev = Dataset_prefetch AUTOTUNE dev;
               test = Dataset_map Normalize_img AUTOTUNE test;
               test = Dataset_batch (batch_size hp) test;
               test = Dataset_cache test;
               test = Dataset_prefetch AUTOTUNE test
           in Inr (train, dev, test, info))
      | _ \<Rightarrow> Inl ValueError)"

definition prepare_data_annotation :: "string list" where
  \<comment> \<open>The declared return type \<open>Tuple[Any, Any, Any]\<close>: one entry per element.\<close>
  "prepare_data_annotation = [''Any'', ''Any'', ''Any'']"

datatype py_object = Obj_Dataset Dataset | Obj_Info DatasetInfo

definition tuple_items :: "Dataset \<times> Dataset \<times> Dataset \<times> DatasetInfo \<Rightarrow> py_object list" where
  \<comment> \<open>The returned tuple as the sequence of its elements.\<close>
  "tuple_items r = (case r of (a, b, c, d) \<Rightarrow> [Obj_Dataset a, Obj_Dataset b, Obj_Dataset c, Obj_Info d])"

subsection \<open>The examples a split reads\<close>

text \<open>
  A read instruction selects a range of the examples of a named split. A percent boundary
  is turned into an index by rounding to the closest integer, a tie going to the even one
  (the loader's default rounding). An example is identified by its split and its index.
  The transformations of a pipeline (map, cache, shuffle, batch, prefetch) neither add
  nor drop examples.
\<close>

definition pct_to_abs_closest :: "nat \<Rightarrow> nat \<Rightarrow> nat" where
  "pct_to_abs_closest boundary n =
     (let q = boundary * n div 100; r = boundary * n mod 100
      in if 50 < r \<or> (r = 50 \<and> odd q) then q + 1 else q)"

fun split_examples :: "DatasetInfo \<Rightarrow> split_spec \<Rightarrow> (string \<times> nat) list" where
  "split_examples info (Slice name from_pct to_pct) =
     (let n = num_examples info name;
          lo = (case from_pct of None \<Rightarrow> 0 | Some p \<Rightarrow> pct_to_abs_closest p n);
          hi = (case to_pct of None \<Rightarrow> n | Some p \<Rightarrow> pct_to_abs_closest p n)
      in map (Pair name) [lo..<hi])"

definition Dataset_examples :: "DatasetInfo \<Rightarrow> Dataset \<Rightarrow> (string \<times> nat) list" where
  "Dataset_examples info d = split_examples info (ds_split d)"

subsection \<open>What a pipeline configures\<close>

fun is_Batch :: "ds_op \<Rightarrow> bool" where
  "is_Batch (Batch n) = True"
| "is_Batch op = False"

fun is_Shuffle :: "ds_op \<Rightarrow> bool" where
  "is_Shuffle (Shuffle n) = True"
| "is_Shuffle op = False"

fun is_Cache :: "ds_op \<Rightarrow> bool" where
  "is_Cache Cache = True"
| "is_Cache op = False"

fun is_Prefetch :: "ds_op \<Rightarrow> bool" where
  "is_Prefetch (Prefetch n) = True"
| "is_Prefetch op = False"

definition configures :: "(ds_op \<Rightarrow> bool) \<Rightarrow> Dataset \<Rightarrow> bool" where
  "configures kind d = list_ex kind (ds_ops d)"

definition mnist_info :: DatasetInfo where
  \<comment> \<open>The metadata of MNIST, as an example of a loader's answer.\<close>
  "mnist_info =
     \<lparr>num_examples = (\<lambda>s. if s = ''train'' then 60000 else if s = ''test'' then 10000 else 0),
      feature_shape = (\<lambda>s. if s = ''image'' then [28, 28, 1] else [])\<rparr>"

section \<open>The network\<close>

text \<open>
  The layers API builds a symbolic graph: \<open>Input(shape)\<close> is a placeholder tensor, and
  calling a layer on a tensor yields the tensor of its result. The layer records the
  arguments of its constructor as the program passes them; the library's own validation
  of these arguments and the numeric kernels of the layers are outside the program.
\<close>

datatype activation = Relu | Softmax

datatype layer =
    Flatten
  | Dense int "activation option" "string option"
  | Dropout rat

datatype tensor = Input "nat list" | Apply layer tensor

fun layers_of :: "tensor \<Rightarrow> layer list" where
  \<comment> \<open>The layers between the input and a tensor, the first applied first.\<close>
  "layers_of (Input shape) = []"
| "layers_of (Apply l t) = layers_of t @ [l]"

fun input_of :: "tensor \<Rightarrow> nat list" where
  "input_of (Input shape) = shape"
| "input_of (Apply l t) = input_of t"

fun units :: "layer \<Rightarrow> int option" where
  "units (Dense n a r) = Some n"
| "units l = None"

datatype optimizer = Adam

datatype loss_fn = SparseCategoricalCrossentropy

datatype metric = SparseCategoricalAccuracy string

fun metric_name :: "metric \<Rightarrow> string" where
  "metric_name (SparseCategoricalAccuracy name) = name"

record Network =
  net_inputs :: tensor
  net_outputs :: tensor
  net_optimizer :: "optimizer option"
  net_loss :: "loss_fn option"
  net_metrics :: "metric list"

record ('w, 'f) Model =
  network :: Network
  weights :: 'w
  stop_training :: bool
  history :: "(string \<times> 'f) list list"

text \<open>
  The numeric work of the library is a parameter of the model: how weights are
  initialised, what one epoch of training over a pipeline does to them and what it logs,
  what loss and metric the network has on a pipeline with given weights, and the
  comparison and the infinity of the floating point type of the logged values. The
  type \<open>'w\<close> of the weights holds everything an epoch may depend on, so the randomness
  of initialisation, shuffling and dropout is part of these functions.
\<close>

record ('w, 'f) Backend =
  init_weights :: "tensor \<Rightarrow> 'w"
  train_epoch :: "Network \<Rightarrow> Dataset \<Rightarrow> nat \<Rightarrow> 'w \<Rightarrow> 'w"
  epoch_loss :: "Network \<Rightarrow> Dataset \<Rightarrow> nat \<Rightarrow> 'w \<Rightarrow> 'f"
  epoch_metric :: "Network \<Rightarrow> metric \<Rightarrow> Dataset \<Rightarrow> nat \<Rightarrow> 'w \<Rightarrow> 'f"
  eval_loss :: "Network \<Rightarrow> Dataset \<Rightarrow> 'w \<Rightarrow> 'f"
  eval_metric :: "Network \<Rightarrow> metric \<Rightarrow> Dataset \<Rightarrow> 'w \<Rightarrow> 'f"
  np_less :: "'f \<Rightarrow> 'f \<Rightarrow> bool"
  np_inf :: 'f

definition Model_new :: "('w, 'f) Backend \<Rightarrow> tensor \<Rightarrow> tensor \<Rightarrow> ('w, 'f) Model" where
  \<comment> \<open>\<open>tf.keras.Model(inputs=inputs, outputs=outputs)\<close>\<close>
  "Model_new fw inputs outputs =
     \<lparr>network = \<lparr>net_inputs = inputs, net_outputs = outputs, net_optimizer = None,
                  net_loss = None, net_metrics = []\<rparr>,
      weights = init_weights fw outputs, stop_training = False, history = []\<rparr>"

definition Model_compile ::
  "optimizer \<Rightarrow> loss_fn \<Rightarrow> metric list \<Rightarrow> ('w, 'f) Model \<Rightarrow> ('w, 'f) Model" where
  "Model_compile opt l ms m =
     m\<lparr>network := (network m)\<lparr>net_optimizer := Some opt, net_loss := Some l, net_metrics := ms\<rparr>\<rparr>"

definition Model_evaluate :: "('w, 'f) Backend \<Rightarrow> ('w, 'f) Model \<Rightarrow> Dataset \<Rightarrow> 'f list" where
  \<comment> \<open>\<open>model.evaluate(x)\<close> of a model compiled with metrics: the loss, then the value of
      each metric in the order given to \<open>compile\<close>.\<close>
  "Model_evaluate fw m x =
     eval_loss fw (network m) x (weights m)
       # map (\<lambda>mt. eval_metric fw (network m) mt x (weights m)) (net_metrics (network m))"

subsection \<open>Early stopping and the fitting loop\<close>

text \<open>
  The callback \<open>EarlyStopping(monitor, patience)\<close> with the library's defaults
  (\<open>min_delta = 0\<close>, the mode chosen from the name of the monitored quantity: smaller is
  better for a loss, no baseline). At the end of each epoch it reads the monitored value
  from the epoch's logs; the counter \<open>wait\<close> is reset when the value is less than the
  best one seen and counts the epoch otherwise; when the counter reaches the patience,
  the callback asks the model to stop. In the library's terms:
  \<^verbatim>\<open>
  on_train_begin:  wait = 0; stopped_epoch = 0; best = inf
  on_epoch_end(epoch, logs):
      current = logs.get(monitor)
      if current is None: return
      wait += 1
      if less(current - min_delta, best): best = current; wait = 0
      if wait >= patience and epoch > 0:
          stopped_epoch = epoch; model.stop_training = True
  fit:  stop_training = False; on_train_begin()
        for epoch in range(0, epochs):
            train one epoch; validate; history.append(logs); on_epoch_end(epoch, logs)
            if stop_training: break
  \<close>
\<close>

record 'f EarlyStopping =
  monitor :: string
  patience :: int
  wait :: int
  best :: 'f
  stopped_epoch :: nat

definition EarlyStopping_new :: "('w, 'f) Backend \<Rightarrow> string \<Rightarrow> int \<Rightarrow> 'f EarlyStopping" where
  "EarlyStopping_new fw mon pat =
     \<lparr>monitor = mon, patience = pat, wait = 0, best = np_inf fw, stopped_epoch = 0\<rparr>"

definition on_train_begin :: "('w, 'f) Backend \<Rightarrow> 'f EarlyStopping \<Rightarrow> 'f EarlyStopping" where
  "on_train_begin fw cb = cb\<lparr>wait := 0, stopped_epoch := 0, best := np_inf fw\<rparr>"

definition on_epoch_end ::
  "('w, 'f) Backend \<Rightarrow> nat \<Rightarrow> (string \<times> 'f) list \<Rightarrow> 'f EarlyStopping \<times> ('w, 'f) Model
     \<Rightarrow> 'f EarlyStopping \<times> ('w, 'f) Model" where
  "on_epoch_end fw epoch logs s =
     (case s of (cb, m) \<Rightarrow>
        (case map_of logs (monitor cb) of
           None \<Rightarrow> (cb, m)
         | Some current \<Rightarrow>
             (let cb = cb\<lparr>wait := wait cb + 1\<rparr>;
                  cb = (if np_less fw current (best cb) then cb\<lparr>best := current, wait := 0\<rparr>
                        else cb)
              in if patience cb \<le> wait cb \<and> 0 < epoch
                 then (cb\<lparr>stopped_epoch := epoch\<rparr>, m\<lparr>stop_training := True\<rparr>)
                 else (cb, m))))"

fun run_callbacks ::
  "('w, 'f) Backend \<Rightarrow> nat \<Rightarrow> (string \<times> 'f) list \<Rightarrow> 'f EarlyStopping list \<Rightarrow> ('w, 'f) Model
     \<Rightarrow> 'f EarlyStopping list \<times> ('w, 'f) Model" where
  "run_callbacks fw epoch logs [] m = ([], m)"
| "run_callbacks fw epoch logs (cb # cbs) m =
     (case on_epoch_end fw epoch logs (cb, m) of (cb', m') \<Rightarrow>
        (case run_callbacks fw epoch logs cbs m' of (cbs', m'') \<Rightarrow> (cb' # cbs', m'')))"

definition epoch_logs ::
  "('w, 'f) Backend \<Rightarrow> Network \<Rightarrow> Dataset \<Rightarrow> Dataset \<Rightarrow> nat \<Rightarrow> 'w \<Rightarrow> 'w \<Rightarrow> (string \<times> 'f) list" where
  \<comment> \<open>The logs of one epoch: the training loss and metrics under their names, then the
      loss and metrics on the validation data under the prefix \<open>val_\<close>.\<close>
  "epoch_logs fw net x val epoch w w' =
     (''loss'', epoch_loss fw net x epoch w)
       # map (\<lambda>mt. (metric_name mt, epoch_metric fw net mt x epoch w)) (net_metrics net)
       @ (''val_loss'', eval_loss fw net val w')
       # map (\<lambda>mt. (''val_'' @ metric_name mt, eval_metric fw net mt val w')) (net_metrics net)"

fun fit_loop ::
  "('w, 'f) Backend \<Rightarrow> Dataset \<Rightarrow> Dataset \<Rightarrow> nat \<Rightarrow> nat \<Rightarrow> ('w, 'f) Model \<times> 'f EarlyStopping list
     \<Rightarrow> ('w, 'f) Model \<times> 'f EarlyStopping list" where
  \<comment> \<open>\<open>for epoch in range(epoch, epoch + remaining)\<close>: train, validate, log, run the
      callbacks, and leave the loop when the model was asked to stop.\<close>
  "fit_loop fw x val epoch 0 s = s"
| "fit_loop fw x val epoch (Suc remaining) s =
     (case s of (m, cbs) \<Rightarrow>
        (let w' = train_epoch fw (network m) x epoch (weights m);
             logs = epoch_logs fw (network m) x val epoch (weights m) w';
             m = m\<lparr>weights := w', history := history m @ [logs]\<rparr>
         in case run_callbacks fw epoch logs cbs m of (cbs, m) \<Rightarrow>
              if stop_training m then (m, cbs)
              else fit_loop fw x val (Suc epoch) remaining (m, cbs)))"

definition Model_fit ::
  "('w, 'f) Backend \<Rightarrow> ('w, 'f) Model \<Rightarrow> Dataset \<Rightarrow> int \<Rightarrow> Dataset \<Rightarrow> 'f EarlyStopping list
     \<Rightarrow> ('w, 'f) Model \<times> 'f EarlyStopping list" where
  \<comment> \<open>\<open>model.fit(x, epochs=epochs, validation_data=val, callbacks=cbs)\<close>: the state of the
      model and of the callbacks when \<open>fit\<close> returns. \<open>range(0, epochs)\<close> is empty for
      \<open>epochs \<le> 0\<close>.\<close>
  "Model_fit fw m x n val cbs =
     fit_loop fw x val 0 (nat n) (m\<lparr>stop_training := False\<rparr>, map (on_train_begin fw) cbs)"

section \<open>The main program\<close>

datatype 'f print_arg = PStr string | PFloat 'f

record ('w, 'f) main_frame =
  v_hp :: "(int, int, int list) HyperParams"
  v_train :: Dataset
  v_dev :: Dataset
  v_test :: Dataset
  v_info :: DatasetInfo
  v_model :: "('w, 'f) Model"
  v_stop_early :: "'f EarlyStopping"
  v_callbacks :: "'f EarlyStopping list"
  v_test_loss :: 'f
  v_test_acc :: 'f
  stdout :: "'f print_arg list list"

text \<open>
  \<^verbatim>\<open>
  def main(hp: HyperParams) -> None:
      train, dev, test, info = prepare_data(hp)
      inputs = tf.keras.layers.Input(info.features["image"].shape)
      hidden = tf.keras.layers.Flatten()(inputs)
      for hidden_size in hp.hidden_layers:
          hidden = tf.keras.layers.Dense(
              hidden_size, activation=tf.nn.relu, kernel_regularizer='l2')(hidden)
      hidden = tf.keras.layers.Dropout(0.5)(hidden)
      outputs = tf.keras.layers.Dense(10, activation=tf.nn.softmax)(hidden)
      model = tf.keras.Model(inputs=inputs, outputs=outputs)
      model.compile(
          optimizer=tf.keras.optimizers.Adam(),
          loss=tf.keras.losses.SparseCategoricalCrossentropy(),
          metrics=[tf.keras.metrics.SparseCategoricalAccuracy('accuracy')])
      stop_early = tf.keras.callbacks.EarlyStopping(monitor='val_loss', patience=5)
      model.fit(train, epochs=hp.epochs, validation_data=dev, callbacks=[stop_early])
      test_loss, test_acc = model.evaluate(test)
      print("test loss, test acc:", test_loss, test_acc)
  \<close>
  The model returns the local variables of \<open>main\<close> as they are when it ends (the
  parameter \<open>hp\<close> among them), the model and the callback in the state \<open>fit\<close> left
  them in, and what the program printed: one entry per call of \<open>print\<close>, holding its
  arguments (progress output of the library is not part of it). \<open>fit\<close> updates the
  callback object in place, so \<open>stop_early\<close> ends as the first element of the callback
  list that \<open>fit\<close> leaves. Unpacking the result of \<open>evaluate\<close> into two names raises
  ValueError unless it has two elements.
\<close>

definition main ::
  "('w, 'f) Backend \<Rightarrow> DatasetInfo \<Rightarrow> (int, int, int list) HyperParams
     \<Rightarrow> py_error + ('w, 'f) main_frame" where
  "main fw builder_info hp =
     (case prepare_data builder_info hp of
        Inl err \<Rightarrow> Inl err
      | Inr (train, dev, test, info) \<Rightarrow>
          (let inputs = Input (feature_shape info ''image'');
               hidden = Apply Flatten inputs;
               hidden = foldl (\<lambda>hidden hidden_size.
                                 Apply (Dense hidden_size (Some Relu) (Some ''l2'')) hidden)
                          hidden (hidden_layers hp);
               hidden = Apply (Dropout (1 / 2)) hidden;
               outputs = Apply (Dense 10 (Some Softmax) None) hidden;
               model = Model_new fw inputs outputs;
               model = Model_compile Adam SparseCategoricalCrossentropy
                         [SparseCategoricalAccuracy ''accuracy''] model;
               stop_early = EarlyStopping_new fw ''val_loss'' 5
           in case Model_fit fw model train (epochs hp) dev [stop_early] of
                (model, callbacks) \<Rightarrow>
                  (case Model_evaluate fw model test of
                     [test_loss, test_acc] \<Rightarrow>
                       Inr \<lparr>v_hp = hp, v_train = train, v_dev = dev, v_test = test, v_info = info,
                            v_model = model,
                            v_stop_early = (case callbacks of cb # _ \<Rightarrow> cb | [] \<Rightarrow> stop_early),
                            v_callbacks = callbacks,
                            v_test_loss = test_loss, v_test_acc = test_acc,
                            stdout = [[PStr ''test loss, test acc:'', PFloat test_loss,
                                       PFloat test_acc]]\<rparr>
                   | _ \<Rightarrow> Inl ValueError)))"

text \<open>
  \<^verbatim>\<open>
  if __name__ == '__main__':
      hp = HyperParams(100, 20, [100, 100])
      main(hp)
  \<close>
  The module reads neither \<open>sys.argv\<close> nor the environment: the command line \<open>argv\<close> is
  an input that nothing uses. Imported under another name, the module runs nothing.
\<close>

definition script ::
  "('w, 'f) Backend \<Rightarrow> DatasetInfo \<Rightarrow> string \<Rightarrow> string list
     \<Rightarrow> (py_error + ('w, 'f) main_frame) option" where
  "script fw builder_info module_name argv =
     (if module_name = ''__main__''
      then (let hp = HyperParams_new 100 20 [100, 100] in Some (main fw builder_info hp))
      else None)"

section \<open>The course of a training run\<close>

text \<open>
  Notions in which the behaviour of the fitting loop is stated. For a run that starts
  from the weights \<open>w0\<close>: the weights after \<open>j\<close> epochs, and the validation loss
  logged at the end of epoch \<open>j\<close> (epochs are counted from 0). For a sequence \<open>v\<close> of
  monitored values: the best value before epoch \<open>j\<close>, whether epoch \<open>j\<close> improved on
  it, and whether the \<open>p\<close> epochs before \<open>k\<close> all failed to improve.
  \<open>stale_epochs\<close> counts the epochs without improvement at the end of the first \<open>k\<close>,
  and \<open>epochs_run\<close> is the number of epochs a loop runs that starts at epoch \<open>j\<close>, has
  \<open>k\<close> epochs left and leaves after the first epoch at which \<open>stop\<close> holds.
\<close>

primrec weights_after :: "('w, 'f) Backend \<Rightarrow> Network \<Rightarrow> Dataset \<Rightarrow> 'w \<Rightarrow> nat \<Rightarrow> 'w" where
  "weights_after fw net x w0 0 = w0"
| "weights_after fw net x w0 (Suc j) = train_epoch fw net x j (weights_after fw net x w0 j)"

definition val_loss_at ::
  "('w, 'f) Backend \<Rightarrow> Network \<Rightarrow> Dataset \<Rightarrow> Dataset \<Rightarrow> 'w \<Rightarrow> nat \<Rightarrow> 'f" where
  "val_loss_at fw net x val w0 j = eval_loss fw net val (weights_after fw net x w0 (Suc j))"

primrec best_before :: "('w, 'f) Backend \<Rightarrow> (nat \<Rightarrow> 'f) \<Rightarrow> nat \<Rightarrow> 'f" where
  "best_before fw v 0 = np_inf fw"
| "best_before fw v (Suc j) =
     (if np_less fw (v j) (best_before fw v j) then v j else best_before fw v j)"

definition improved :: "('w, 'f) Backend \<Rightarrow> (nat \<Rightarrow> 'f) \<Rightarrow> nat \<Rightarrow> bool" where
  "improved fw v j = np_less fw (v j) (best_before fw v j)"

definition no_improvement_for :: "('w, 'f) Backend \<Rightarrow> (nat \<Rightarrow> 'f) \<Rightarrow> nat \<Rightarrow> nat \<Rightarrow> bool" where
  "no_improvement_for fw v p k = (p \<le> k \<and> list_all (\<lambda>j. \<not> improved fw v j) [k - p..<k])"

primrec stale_epochs :: "('w, 'f) Backend \<Rightarrow> (nat \<Rightarrow> 'f) \<Rightarrow> nat \<Rightarrow> nat" where
  "stale_epochs fw v 0 = 0"
| "stale_epochs fw v (Suc j) = (if improved fw v j then 0 else Suc (stale_epochs fw v j))"

primrec epochs_run :: "(nat \<Rightarrow> bool) \<Rightarrow> nat \<Rightarrow> nat \<Rightarrow> nat" where
  "epochs_run stop j 0 = j"
| "epochs_run stop j (Suc k) = (if stop j then Suc j else epochs_run stop (Suc j) k)"

text \<open>
  A backend for examples: the weights count the epochs trained, and the validation loss
  is 9 after the first epoch and 8 from the second on.
\<close>

definition plateau_backend :: "(nat, int) Backend" where
  "plateau_backend =
     \<lparr>init_weights = (\<lambda>t. 0),
      train_epoch = (\<lambda>net x e w. Suc w),
      epoch_loss = (\<lambda>net x e w. 0),
      epoch_metric = (\<lambda>net mt x e w. 0),
      eval_loss = (\<lambda>net x w. if w \<le> 1 then 9 else 8),
      eval_metric = (\<lambda>net mt x w. 0),
      np_less = (<),
      np_inf = 1000\<rparr>"

section \<open>Rounding to single precision\<close>

lemma pow2_power_int: "pow2 e = power_int 2 e"
  by (simp add: pow2_def power_int_def field_simps)

lemma pow2_pos: "0 < pow2 e"
  by (simp add: pow2_power_int)

lemma pow2_add: "pow2 (a + b) = pow2 a * pow2 b"
  by (simp add: pow2_power_int power_int_add)

lemma pow2_mono: "a \<le> b \<Longrightarrow> pow2 a \<le> pow2 b"
  by (simp add: pow2_power_int power_int_increasing)

lemma pow2_nat: "0 \<le> e \<Longrightarrow> pow2 e = 2 ^ nat e"
  by (simp add: pow2_def)

lemma ilog2_bounds:
  assumes "0 < x"
  shows "pow2 (ilog2 x) \<le> x \<and> x < pow2 (ilog2 x + 1)"
proof -
  obtain p q where pq: "quotient_of x = (p, q)" by (cases "quotient_of x")
  have q: "0 < q" using pq by (rule quotient_of_denom_pos)
  have x: "x = of_int p / of_int q" using pq by (rule quotient_of_div)
  have p: "0 < p" using assms q x by (simp add: zero_less_divide_iff)
  define bp where "bp = bitlen p"
  define bq where "bq = bitlen q"
  have bp1: "1 \<le> bp" and bq1: "1 \<le> bq"
    using p q bitlen_eq_zero_iff[of p] bitlen_eq_zero_iff[of q] bitlen_nonneg[of p] bitlen_nonneg[of q]
    by (auto simp: bp_def bq_def)
  have plo: "(2::rat) ^ nat (bp - 1) \<le> of_int p" and phi: "of_int p < (2::rat) ^ nat bp"
    using bitlen_bounds[OF p] unfolding bp_def
    by (metis of_int_le_iff of_int_numeral of_int_power, metis of_int_less_iff of_int_numeral of_int_power)
  have qlo: "(2::rat) ^ nat (bq - 1) \<le> of_int q" and qhi: "of_int q < (2::rat) ^ nat bq"
    using bitlen_bounds[OF q] unfolding bq_def
    by (metis of_int_le_iff of_int_numeral of_int_power, metis of_int_less_iff of_int_numeral of_int_power)
  have P: "pow2 (bp - 1) \<le> of_int p" "of_int p < pow2 bp" "pow2 (bq - 1) \<le> of_int q" "of_int q < pow2 bq"
    using plo phi qlo qhi bp1 bq1 by (simp_all add: pow2_nat)
  have qpos: "(0::rat) < of_int q" using q by simp
  have lo: "pow2 (bp - bq - 1) \<le> x"
  proof -
    have "pow2 (bp - bq - 1) * of_int q \<le> pow2 (bp - bq - 1) * pow2 bq"
      using P(4) pow2_pos[of "bp - bq - 1"] by (simp add: less_imp_le)
    also have "\<dots> = pow2 (bp - 1)" by (simp add: pow2_add[symmetric])
    also have "\<dots> \<le> of_int p" by (rule P(1))
    finally show ?thesis using qpos by (simp add: x pos_le_divide_eq)
  qed
  have hi: "x < pow2 (bp - bq + 1)"
  proof -
    have "of_int p < pow2 bp" by (rule P(2))
    also have "\<dots> = pow2 (bp - bq + 1) * pow2 (bq - 1)" by (simp add: pow2_add[symmetric])
    also have "\<dots> \<le> pow2 (bp - bq + 1) * of_int q"
      using P(3) pow2_pos[of "bp - bq + 1"] by simp
    finally show ?thesis using qpos by (simp add: x pos_divide_less_eq)
  qed
  show ?thesis
    using lo hi by (simp add: ilog2_def pq bp_def[symmetric] bq_def[symmetric] Let_def not_le)
qed

lemma round_half_even_error: "\<bar>of_int (round_half_even x) - x\<bar> \<le> 1 / 2"
proof -
  have f: "of_int \<lfloor>x\<rfloor> \<le> x" "x < of_int \<lfloor>x\<rfloor> + 1"
    by linarith+
  show ?thesis
    using f unfolding round_half_even_def Let_def
    by (auto simp: abs_le_iff)
qed

lemma round_half_even_bounds:
  assumes "of_int a \<le> x" "x \<le> of_int b"
  shows "a \<le> round_half_even x \<and> round_half_even x \<le> b"
proof -
  have fa: "a \<le> \<lfloor>x\<rfloor>" using assms(1) by (simp add: le_floor_iff)
  have fb: "\<lfloor>x\<rfloor> \<le> b" using assms(2) by (simp add: floor_le_iff)
  have eq: "x = of_int b \<Longrightarrow> x - of_int \<lfloor>x\<rfloor> = 0" by simp
  have lt: "x \<noteq> of_int b \<Longrightarrow> \<lfloor>x\<rfloor> < b"
    using assms(2) by (metis floor_less_iff less_le)
  show ?thesis
  proof (cases "x = of_int b")
    case True
    then show ?thesis using fa by (simp add: round_half_even_def Let_def)
  next
    case False
    then show ?thesis using fa lt[OF False] by (simp add: round_half_even_def Let_def)
  qed
qed

lemma float32_round_pos:
  assumes "0 < x"
  shows "float32_round x = of_int (round_half_even (x * pow2 (23 - max (ilog2 x) (- 126)))) * pow2 (max (ilog2 x) (- 126) - 23)"
  using assms by (simp add: float32_round_def Let_def)

lemma float32_round_error:
  assumes "0 < x"
  shows "\<bar>float32_round x - x\<bar> \<le> pow2 (max (ilog2 x) (- 126) - 24)"
proof -
  define e where "e = max (ilog2 x) (- 126)"
  define s where "s = x * pow2 (23 - e)"
  have x: "x = s * pow2 (e - 23)"
    by (simp add: s_def pow2_add[symmetric] pow2_def)
  have "float32_round x - x = (of_int (round_half_even s) - s) * pow2 (e - 23)"
    using assms by (simp add: float32_round_pos e_def[symmetric] s_def[symmetric] x[symmetric] algebra_simps)
  then have "\<bar>float32_round x - x\<bar> = \<bar>of_int (round_half_even s) - s\<bar> * pow2 (e - 23)"
    using pow2_pos[of "e - 23"] by (simp add: abs_mult)
  also have "\<dots> \<le> (1 / 2) * pow2 (e - 23)"
    using round_half_even_error[of s] pow2_pos[of "e - 23"] by (simp add: mult_right_mono)
  also have "\<dots> = pow2 (- 1) * pow2 (e - 23)" by (simp add: pow2_def)
  also have "\<dots> = pow2 (e - 24)" by (simp add: pow2_add[symmetric])
  finally show ?thesis by (simp add: e_def)
qed

lemma float32_round_nonneg:
  assumes "0 \<le> x"
  shows "0 \<le> float32_round x"
proof (cases "x = 0")
  case True then show ?thesis by (simp add: float32_round_def)
next
  case False
  then have x: "0 < x" using assms by simp
  have "0 \<le> x * pow2 (23 - max (ilog2 x) (- 126))"
    using x pow2_pos[of "23 - max (ilog2 x) (- 126)"] by simp
  then have "0 \<le> round_half_even (x * pow2 (23 - max (ilog2 x) (- 126)))"
    using round_half_even_bounds[of 0 _ "\<lceil>x * pow2 (23 - max (ilog2 x) (- 126))\<rceil>"] by simp
  then show ?thesis
    using pow2_pos[of "max (ilog2 x) (- 126) - 23"] by (simp add: float32_round_pos[OF x])
qed

lemma float32_round_one: "float32_round 1 = 1"
  by code_simp

lemma float32_round_zero: "float32_round 0 = 0"
  by (simp add: float32_round_def)


lemma ilog2_neg:
  assumes "0 < x" "x < 1"
  shows "ilog2 x \<le> - 1"
proof (rule ccontr)
  assume "\<not> ilog2 x \<le> - 1"
  then have "0 \<le> ilog2 x" by simp
  then have "pow2 0 \<le> pow2 (ilog2 x)" by (rule pow2_mono)
  then have "1 \<le> x" using ilog2_bounds[OF assms(1)] by (simp add: pow2_def)
  then show False using assms(2) by simp
qed

lemma float32_round_unit_error:
  assumes "0 < x" "x < 1" "pow2 (- 126) \<le> x"
  shows "\<bar>float32_round x - x\<bar> \<le> 1 / 2 ^ 25"
proof -
  have lo: "- 126 \<le> ilog2 x"
  proof (rule ccontr)
    assume "\<not> - 126 \<le> ilog2 x"
    then have "ilog2 x + 1 \<le> - 126" by simp
    then have "pow2 (ilog2 x + 1) \<le> pow2 (- 126)" by (rule pow2_mono)
    then show False using ilog2_bounds[OF assms(1)] assms(3) by simp
  qed
  have "max (ilog2 x) (- 126) - 24 \<le> - 25"
    using ilog2_neg[OF assms(1,2)] lo by simp
  then have "pow2 (max (ilog2 x) (- 126) - 24) \<le> pow2 (- 25)" by (rule pow2_mono)
  then show ?thesis using float32_round_error[OF assms(1)] by (simp add: pow2_def)
qed

lemma float32_round_is_float32:
  assumes "0 < x" "x < 1"
  shows "is_float32 (float32_round x)"
proof -
  define e where "e = max (ilog2 x) (- 126)"
  define s where "s = x * pow2 (23 - e)"
  define m where "m = round_half_even s"
  have r: "float32_round x = of_int m * pow2 (e - 23)"
    using assms(1) by (simp add: float32_round_pos e_def s_def m_def)
  have e1: "e \<le> - 1" "- 126 \<le> e" "ilog2 x \<le> e"
    using ilog2_neg[OF assms] by (simp_all add: e_def)
  have "x < pow2 (e + 1)"
    using ilog2_bounds[OF assms(1)] pow2_mono[of "ilog2 x + 1" "e + 1"] e1(3) by simp
  then have "s < pow2 (e + 1) * pow2 (23 - e)"
    using pow2_pos[of "23 - e"] by (simp add: s_def)
  also have "pow2 (e + 1) * pow2 (23 - e) = pow2 24"
    by (simp add: pow2_add[symmetric])
  finally have s_hi: "s \<le> of_int (2 ^ 24)"
    by (simp add: pow2_def)
  have s_lo: "of_int 0 \<le> s"
    using assms(1) pow2_pos[of "23 - e"] by (simp add: s_def)
  have m: "0 \<le> m" "m \<le> 2 ^ 24"
    using round_half_even_bounds[OF s_lo s_hi] by (simp_all add: m_def)
  show ?thesis
  proof (cases "m = 2 ^ 24")
    case False
    then have "\<bar>m\<bar> < 2 ^ 24" using m by simp
    then show ?thesis unfolding is_float32_def r using e1 by (intro exI[of _ m] exI[of _ e]) simp
  next
    case True
    have "pow2 (e + 1 - 23) = 2 * pow2 (e - 23)"
      using pow2_add[of 1 "e - 23"] by (simp add: pow2_def algebra_simps)
    then have "float32_round x = of_int (2 ^ 23) * pow2 (e + 1 - 23)"
      by (simp add: r True)
    then show ?thesis unfolding is_float32_def using e1
      by (intro exI[of _ "2 ^ 23"] exI[of _ "e + 1"]) simp
  qed
qed


lemma normalize_pixel:
  fixes v :: uint8
  defines "x \<equiv> of_nat (unat v) / 255"
  shows "is_float32 (float32_round x) \<and> \<bar>float32_round x - x\<bar> \<le> 1 / 2 ^ 25
    \<and> 0 \<le> float32_round x \<and> float32_round x \<le> 1"
proof -
  define n where "n = unat v"
  have x: "x = of_nat n / 255" by (simp only: x_def n_def)
  have n: "n < 256" using unsigned_less[of v] by (simp add: n_def)
  consider "n = 0" | "n = 255" | "0 < n" "n < 255"
    using n by linarith
  then show ?thesis
  proof cases
    case 1
    have "is_float32 0" unfolding is_float32_def by (intro exI[of _ 0] exI[of _ 0]) simp
    then show ?thesis using 1 by (simp add: x float32_round_zero)
  next
    case 2
    have "(1::rat) = of_int (2 ^ 23) * pow2 (0 - 23)" by (simp add: pow2_def)
    then have "is_float32 1" unfolding is_float32_def
      by (intro exI[of _ "2 ^ 23"] exI[of _ 0]) simp
    then show ?thesis using 2 by (simp add: x float32_round_one)
  next
    case 3
    have x0: "0 < x" using 3(1) by (simp add: x)
    have "n \<le> 254" using 3(2) by simp
    then have "(of_nat n :: rat) \<le> of_nat 254" by (simp only: of_nat_le_iff)
    then have x1: "x \<le> 254 / 255" by (simp add: x)
    then have x2: "x < 1" by simp
    have "1 \<le> n" using 3(1) by simp
    then have "(of_nat 1 :: rat) \<le> of_nat n" by (simp only: of_nat_le_iff)
    then have "1 / 255 \<le> x" by (simp add: x)
    moreover have "pow2 (- 126) \<le> 1 / 255" by (simp add: pow2_def)
    ultimately have x3: "pow2 (- 126) \<le> x" by linarith
    have err: "\<bar>float32_round x - x\<bar> \<le> 1 / 2 ^ 25"
      by (rule float32_round_unit_error[OF x0 x2 x3])
    have "float32_round x \<le> x + 1 / 2 ^ 25" using err by linarith
    also have "\<dots> \<le> 254 / 255 + 1 / 2 ^ 25" using x1 by simp
    also have "\<dots> \<le> 1" by simp
    finally have le1: "float32_round x \<le> 1" .
    show ?thesis
      using err le1 float32_round_nonneg[of x] x0 float32_round_is_float32[OF x0 x2] by simp
  qed
qed

section \<open>Properties of the normalisation\<close>

text \<open>
  C9. For every (image, label) pair, \<open>normalize_img\<close> returns the label unchanged;
  only the image component is transformed.
\<close>

theorem normalize_img_label:
  "snd (normalize_img img label) = label"
  by (simp add: normalize_img_def)

text \<open>
  C1. For every uint8 pixel value \<open>v\<close> of the image, \<open>normalize_img\<close> yields at the
  same position the float32 value of \<open>v / 255\<close>: the exact quotient rounded to single
  precision, a float32 value within \<open>2 ^ -25\<close> of the quotient. Every output lies in
  the interval from 0 to 1, the pixel value 255 maps to 1 and the pixel value 0 maps to 0.
\<close>

theorem normalize_img_pixels:
  "length (fst (normalize_img img label)) = length img
   \<and> (\<forall>i<length img.
        let x = of_nat (unat (img ! i)) / 255; y = fst (normalize_img img label) ! i
        in y = float32_round x \<and> is_float32 y \<and> \<bar>y - x\<bar> \<le> 1 / 2 ^ 25
           \<and> 0 \<le> y \<and> y \<le> 1
           \<and> (img ! i = 255 \<longrightarrow> y = 1) \<and> (img ! i = 0 \<longrightarrow> y = 0))"
proof -
  have px: "fst (normalize_img img label) ! i = float32_round (of_nat (unat (img ! i)) / 255)"
    if "i < length img" for i
    using that by (simp add: normalize_img_def float32_div_def tf_cast_float32_def)
  show ?thesis
    using normalize_pixel float32_round_one float32_round_zero
    by (simp add: px Let_def) (simp add: normalize_img_def)
qed

theorem normalize_img_pixels_witness:
  "(1::nat) < length [0, 128, 255 :: uint8]
   \<and> fst (normalize_img [0, 128, 255] ()) ! 1 = float32_round (128 / 255)
   \<and> \<bar>fst (normalize_img [0, 128, 255] ()) ! 1 - 128 / 255\<bar> \<le> 1 / 2 ^ 25
   \<and> fst (normalize_img [0, 128, 255] ()) ! 0 = 0
   \<and> fst (normalize_img [0, 128, 255] ()) ! 2 = 1"
proof -
  have h: "(1::nat) < length [0, 128, 255 :: uint8]" "(0::nat) < length [0, 128, 255 :: uint8]"
    "(2::nat) < length [0, 128, 255 :: uint8]" by simp_all
  show ?thesis
    using normalize_img_pixels[of "[0, 128, 255]" "()", THEN conjunct2, rule_format, OF h(1)]
      normalize_img_pixels[of "[0, 128, 255]" "()", THEN conjunct2, rule_format, OF h(2)]
      normalize_img_pixels[of "[0, 128, 255]" "()", THEN conjunct2, rule_format, OF h(3)]
    by (simp add: Let_def normalize_img_def float32_div_def tf_cast_float32_def)
qed

section \<open>Properties of the data preparation\<close>

lemma prepare_data_result:
  "prepare_data info hp =
     Inr (\<lparr>ds_name = ''mnist'', ds_split = Slice ''train'' None (Some 90),
           ds_shuffle_files = True, ds_as_supervised = True,
           ds_ops = [Map Normalize_img AUTOTUNE, Cache, Shuffle (int (num_examples info ''train'')),
                     Batch (batch_size hp), Prefetch AUTOTUNE]\<rparr>,
          \<lparr>ds_name = ''mnist'', ds_split = Slice ''train'' (Some 90) None,
           ds_shuffle_files = True, ds_as_supervised = True,
           ds_ops = [Map Normalize_img AUTOTUNE, Batch (batch_size hp), Cache, Prefetch AUTOTUNE]\<rparr>,
          \<lparr>ds_name = ''mnist'', ds_split = Slice ''test'' None None,
           ds_shuffle_files = True, ds_as_supervised = True,
           ds_ops = [Map Normalize_img AUTOTUNE, Batch (batch_size hp), Cache, Prefetch AUTOTUNE]\<rparr>,
          info)"
  by (simp add: prepare_data_def tfds_load_def Dataset_map_def Dataset_cache_def
      Dataset_shuffle_def Dataset_batch_def Dataset_prefetch_def)

lemma pct_to_abs_closest_le: "pct_to_abs_closest 90 n \<le> n"
proof -
  define q where "q = 90 * n div 100"
  define r where "r = 90 * n mod 100"
  have eq: "90 * n = 100 * q + r" unfolding q_def r_def by (simp only: mult_div_mod_eq)
  have r: "r < 100" unfolding r_def by simp
  show ?thesis
    using eq r unfolding pct_to_abs_closest_def Let_def q_def[symmetric] r_def[symmetric]
    by (auto split: if_splits)
qed

lemma pct_to_abs_closest_near:
  "90 * n \<le> 100 * pct_to_abs_closest 90 n + 50 \<and> 100 * pct_to_abs_closest 90 n \<le> 90 * n + 50"
proof -
  define q where "q = 90 * n div 100"
  define r where "r = 90 * n mod 100"
  have eq: "90 * n = 100 * q + r" unfolding q_def r_def by (simp only: mult_div_mod_eq)
  have r: "r < 100" unfolding r_def by simp
  show ?thesis
    using eq r unfolding pct_to_abs_closest_def Let_def q_def[symmetric] r_def[symmetric]
    by (auto split: if_splits)
qed

lemma pct_to_abs_closest_exact:
  assumes "10 dvd n"
  shows "10 * pct_to_abs_closest 90 n = 9 * n"
proof -
  obtain k where n: "n = 10 * k" using assms by (auto simp: dvd_def)
  have "90 * n div 100 = 9 * k" "90 * n mod 100 = 0" by (simp_all add: n)
  then show ?thesis by (simp add: pct_to_abs_closest_def n)
qed

text \<open>
  C3. \<open>prepare_data\<close> partitions the data into three disjoint splits. With \<open>n\<close> the
  number of examples of the source training set and \<open>k\<close> the index of its 90 percent
  boundary: the train partition is the first \<open>k\<close> examples of the source training set,
  the dev partition is the remaining ones, and the test partition is the whole of the
  separate test set. No example occurs twice among the three, train followed by dev is
  the full source training set, and their sizes sum to \<open>n\<close>. The size of the train
  partition is 90 percent of \<open>n\<close> up to the rounding of the boundary to an index, and
  exactly nine tenths (dev: one tenth) when ten divides \<open>n\<close>.
\<close>

theorem prepare_data_splits:
  "\<exists>train dev test.
     prepare_data info hp = Inr (train, dev, test, info)
     \<and> (let n = num_examples info ''train''; k = pct_to_abs_closest 90 n
        in Dataset_examples info train = map (Pair ''train'') [0..<k]
           \<and> Dataset_examples info dev = map (Pair ''train'') [k..<n]
           \<and> Dataset_examples info test = map (Pair ''test'') [0..<num_examples info ''test'']
           \<and> Dataset_examples info train @ Dataset_examples info dev = map (Pair ''train'') [0..<n]
           \<and> distinct (Dataset_examples info train @ Dataset_examples info dev
                         @ Dataset_examples info test)
           \<and> length (Dataset_examples info train) + length (Dataset_examples info dev) = n
           \<and> 90 * n \<le> 100 * length (Dataset_examples info train) + 50
           \<and> 100 * length (Dataset_examples info train) \<le> 90 * n + 50
           \<and> (10 dvd n \<longrightarrow> 10 * length (Dataset_examples info train) = 9 * n
                             \<and> 10 * length (Dataset_examples info dev) = n))"
proof -
  define n where "n = num_examples info ''train''"
  define k where "k = pct_to_abs_closest 90 n"
  have kn: "k \<le> n" unfolding k_def by (rule pct_to_abs_closest_le)
  have app: "map (Pair ''train'') [0..<k] @ map (Pair ''train'') [k..<n] = map (Pair ''train'') [0..<n]"
    using kn by (metis le0 map_append upt_add_eq_append le_add_diff_inverse)
  have dist: "distinct (map (Pair ''train'') [0..<k] @ map (Pair ''train'') [k..<n]
      @ map (Pair ''test'') [0..<num_examples info ''test''])"
    by (auto simp: distinct_map inj_on_def)
  have near: "90 * n \<le> 100 * k + 50" "100 * k \<le> 90 * n + 50"
    using pct_to_abs_closest_near[of n] by (simp_all add: k_def)
  have exact: "10 dvd n \<Longrightarrow> 10 * k = 9 * n \<and> 10 * (n - k) = n"
    using pct_to_abs_closest_exact[of n] kn by (simp add: k_def)
  show ?thesis
    unfolding prepare_data_result
    using kn app dist near exact
    by (simp add: Dataset_examples_def Let_def n_def[symmetric] k_def[symmetric])
qed


theorem prepare_data_splits_witness:
  "(10::nat) dvd num_examples mnist_info ''train''
   \<and> (\<exists>train dev test.
         prepare_data mnist_info (HyperParams_new 100 (20::int) [100::int, 100])
           = Inr (train, dev, test, mnist_info)
         \<and> length (Dataset_examples mnist_info train) = 54000
         \<and> length (Dataset_examples mnist_info dev) = 6000)"
proof -
  have n: "num_examples mnist_info ''train'' = 60000" by (simp add: mnist_info_def)
  have h: "(10::nat) dvd num_examples mnist_info ''train''" by (simp add: n)
  show ?thesis
    using h prepare_data_splits[of mnist_info "HyperParams_new 100 (20::int) [100::int, 100]"]
    by (auto simp: Let_def n)
qed

text \<open>
  C4, as stated: for each of the three splits, \<open>prepare_data\<close> configures batching,
  shuffling, caching and prefetching on that split's pipeline. This fails on the dev and
  on the test pipeline, on which no shuffle is applied.
\<close>

theorem prepare_data_dev_test_not_shuffled:
  "\<not> isl (prepare_data mnist_info (HyperParams_new 100 (20::int) [100::int, 100]))
   \<and> \<not> (configures is_Batch (fst (snd (projr (prepare_data mnist_info (HyperParams_new 100 (20::int) [100::int, 100])))))
        \<and> configures is_Shuffle (fst (snd (projr (prepare_data mnist_info (HyperParams_new 100 (20::int) [100::int, 100])))))
        \<and> configures is_Cache (fst (snd (projr (prepare_data mnist_info (HyperParams_new 100 (20::int) [100::int, 100])))))
        \<and> configures is_Prefetch (fst (snd (projr (prepare_data mnist_info (HyperParams_new 100 (20::int) [100::int, 100]))))))
   \<and> \<not> configures is_Shuffle (fst (snd (snd (projr (prepare_data mnist_info (HyperParams_new 100 (20::int) [100::int, 100]))))))"
  by (simp add: prepare_data_result configures_def)

text \<open>
  C4, amended: on each of the three pipelines \<open>prepare_data\<close> maps \<open>normalize_img\<close> and
  configures batching (with \<open>hp.batch_size\<close>), caching and prefetching; it configures
  shuffling of the examples on the train pipeline only, with a buffer of the size of the
  whole source training set. The dev and the test pipeline are not shuffled. The order
  of the transformations is the one listed. The loader is asked to shuffle the order of
  the input files for all three splits.
\<close>

theorem prepare_data_pipelines:
  "\<exists>train dev test.
     prepare_data info hp = Inr (train, dev, test, info)
     \<and> ds_ops train = [Map Normalize_img AUTOTUNE, Cache, Shuffle (int (num_examples info ''train'')),
                       Batch (batch_size hp), Prefetch AUTOTUNE]
     \<and> ds_ops dev = [Map Normalize_img AUTOTUNE, Batch (batch_size hp), Cache, Prefetch AUTOTUNE]
     \<and> ds_ops test = [Map Normalize_img AUTOTUNE, Batch (batch_size hp), Cache, Prefetch AUTOTUNE]
     \<and> configures is_Batch train \<and> configures is_Cache train \<and> configures is_Prefetch train
     \<and> configures is_Batch dev \<and> configures is_Cache dev \<and> configures is_Prefetch dev
     \<and> configures is_Batch test \<and> configures is_Cache test \<and> configures is_Prefetch test
     \<and> configures is_Shuffle train
     \<and> \<not> configures is_Shuffle dev
     \<and> \<not> configures is_Shuffle test
     \<and> ds_shuffle_files train \<and> ds_shuffle_files dev \<and> ds_shuffle_files test"
  by (simp add: prepare_data_result configures_def)

text \<open>
  C10. For every HyperParams input, \<open>prepare_data\<close> returns a tuple of four elements,
  in this order: the train pipeline (reading \<open>train[:90%]\<close> of mnist), the dev pipeline
  (reading \<open>train[90%:]\<close>), the test pipeline (reading \<open>test\<close>), each with the
  transformations applied to it, and last the dataset info object that the loader
  returned. The declared return annotation \<open>Tuple[Any, Any, Any]\<close> lists three
  elements: it covers the three pipelines, and the element of the returned tuple beyond
  it is the info object.
\<close>

theorem prepare_data_returns_four:
  "\<exists>train dev test.
     prepare_data info hp = Inr (train, dev, test, info)
     \<and> tuple_items (projr (prepare_data info hp))
         = [Obj_Dataset train, Obj_Dataset dev, Obj_Dataset test, Obj_Info info]
     \<and> ds_name train = ''mnist'' \<and> ds_split train = Slice ''train'' None (Some 90)
     \<and> ds_ops train = [Map Normalize_img AUTOTUNE, Cache, Shuffle (int (num_examples info ''train'')),
                       Batch (batch_size hp), Prefetch AUTOTUNE]
     \<and> ds_name dev = ''mnist'' \<and> ds_split dev = Slice ''train'' (Some 90) None
     \<and> ds_ops dev = [Map Normalize_img AUTOTUNE, Batch (batch_size hp), Cache, Prefetch AUTOTUNE]
     \<and> ds_name test = ''mnist'' \<and> ds_split test = Slice ''test'' None None
     \<and> ds_ops test = [Map Normalize_img AUTOTUNE, Batch (batch_size hp), Cache, Prefetch AUTOTUNE]
     \<and> snd (tfds_load info ''mnist''
              [Slice ''train'' None (Some 90), Slice ''train'' (Some 90) None, Slice ''test'' None None]
              True True) = info
     \<and> length (tuple_items (projr (prepare_data info hp))) = 4
     \<and> length prepare_data_annotation = 3
     \<and> take (length prepare_data_annotation) (tuple_items (projr (prepare_data info hp)))
         = [Obj_Dataset train, Obj_Dataset dev, Obj_Dataset test]
     \<and> drop (length prepare_data_annotation) (tuple_items (projr (prepare_data info hp)))
         = [Obj_Info info]"
  by (simp add: prepare_data_result tuple_items_def prepare_data_annotation_def tfds_load_def)

section \<open>The fitting loop\<close>

lemma stale_epochs_le: "stale_epochs fw v k \<le> k"
  by (induction k) auto

lemma stale_epochs_iff:
  "p \<le> stale_epochs fw v k \<longleftrightarrow> no_improvement_for fw v p k"
proof (induction k arbitrary: p)
  case 0
  then show ?case by (simp add: no_improvement_for_def)
next
  case (Suc k)
  show ?case
  proof (cases p)
    case 0
    then show ?thesis by (simp add: no_improvement_for_def)
  next
    case (Suc q)
    have range: "[Suc k - Suc q..<Suc k] = [k - q..<k] @ [k]" by simp
    show ?thesis
      using Suc.IH[of q] by (auto simp: Suc no_improvement_for_def)
  qed
qed

lemma epochs_run_bounds: "j \<le> epochs_run stop j k \<and> epochs_run stop j k \<le> j + k"
proof (induction k arbitrary: j)
  case 0 show ?case by simp
next
  case (Suc k)
  show ?case using Suc[of "Suc j"] by auto
qed

lemma epochs_run_stopped:
  "epochs_run stop j k < j + k \<Longrightarrow> j < epochs_run stop j k \<and> stop (epochs_run stop j k - 1)"
proof (induction k arbitrary: j)
  case 0 then show ?case by simp
next
  case (Suc k)
  show ?case
  proof (cases "stop j")
    case True then show ?thesis by simp
  next
    case False
    then have "epochs_run stop (Suc j) k < Suc j + k" using Suc.prems by simp
    from Suc.IH[OF this] show ?thesis using False by auto
  qed
qed

lemma epochs_run_continued:
  "j \<le> i \<Longrightarrow> Suc i < epochs_run stop j k \<Longrightarrow> \<not> stop i"
proof (induction k arbitrary: j)
  case 0 then show ?case by simp
next
  case (Suc k)
  show ?case
  proof (cases "stop j")
    case True then show ?thesis using Suc.prems by simp
  next
    case False
    show ?thesis
    proof (cases "i = j")
      case True then show ?thesis using False by simp
    next
      case ne: False
      then have "Suc j \<le> i" using Suc.prems(1) by simp
      moreover have "Suc i < epochs_run stop (Suc j) k" using Suc.prems(2) False by simp
      ultimately show ?thesis by (rule Suc.IH)
    qed
  qed
qed


lemma map_of_epoch_logs_val_loss:
  "net_metrics net = [SparseCategoricalAccuracy ''accuracy'']
   \<Longrightarrow> map_of (epoch_logs fw net x val e w w') ''val_loss'' = Some (eval_loss fw net val w')"
  by (simp add: epoch_logs_def)

lemma on_epoch_end_step:
  assumes "map_of logs (monitor cb) = Some (v j)"
    and "wait cb = int (stale_epochs fw v j)"
    and "best cb = best_before fw v j"
  shows "on_epoch_end fw j logs (cb, m) =
     (if patience cb \<le> int (stale_epochs fw v (Suc j)) \<and> 0 < j
      then (cb\<lparr>wait := int (stale_epochs fw v (Suc j)), best := best_before fw v (Suc j),
               stopped_epoch := j\<rparr>, m\<lparr>stop_training := True\<rparr>)
      else (cb\<lparr>wait := int (stale_epochs fw v (Suc j)), best := best_before fw v (Suc j)\<rparr>, m))"
  using assms by (simp add: on_epoch_end_def improved_def Let_def)

lemma fit_loop_single:
  assumes "network m = net"
    and "net_metrics net = [SparseCategoricalAccuracy ''accuracy'']"
    and "weights m = weights_after fw net x w0 j"
    and "\<not> stop_training m"
    and "monitor cb = ''val_loss''"
    and "patience cb = p"
    and "wait cb = int (stale_epochs fw (val_loss_at fw net x val w0) j)"
    and "best cb = best_before fw (val_loss_at fw net x val w0) j"
  shows "\<exists>m' cb'. fit_loop fw x val j k (m, [cb]) = (m', [cb'])
     \<and> network m' = net
     \<and> weights m' = weights_after fw net x w0
         (epochs_run (\<lambda>i. p \<le> int (stale_epochs fw (val_loss_at fw net x val w0) (Suc i)) \<and> 0 < i) j k)
     \<and> map (\<lambda>l. map_of l ''val_loss'') (history m') =
         map (\<lambda>l. map_of l ''val_loss'') (history m)
         @ map (\<lambda>i. Some (val_loss_at fw net x val w0 i))
             [j..<epochs_run (\<lambda>i. p \<le> int (stale_epochs fw (val_loss_at fw net x val w0) (Suc i)) \<and> 0 < i) j k]
     \<and> monitor cb' = ''val_loss'' \<and> patience cb' = p"
  using assms
proof (induction k arbitrary: j m cb)
  case 0
  then show ?case by simp
next
  case (Suc k)
  let ?v = "val_loss_at fw net x val w0"
  let ?stop = "\<lambda>i. p \<le> int (stale_epochs fw ?v (Suc i)) \<and> 0 < i"
  let ?w' = "weights_after fw net x w0 (Suc j)"
  let ?logs = "epoch_logs fw net x val j (weights m) ?w'"
  let ?m1 = "m\<lparr>weights := ?w', history := history m @ [?logs]\<rparr>"
  let ?cb1 = "cb\<lparr>wait := int (stale_epochs fw ?v (Suc j)), best := best_before fw ?v (Suc j)\<rparr>"
  have logs: "map_of ?logs (monitor cb) = Some (?v j)"
    using Suc.prems(2,5) by (simp add: map_of_epoch_logs_val_loss val_loss_at_def)
  have step: "on_epoch_end fw j ?logs (cb, ?m1) =
     (if ?stop j then (?cb1\<lparr>stopped_epoch := j\<rparr>, ?m1\<lparr>stop_training := True\<rparr>) else (?cb1, ?m1))"
    using on_epoch_end_step[OF logs Suc.prems(7,8), of ?m1] Suc.prems(6) by simp
  have w': "train_epoch fw (network m) x j (weights m) = ?w'"
    using Suc.prems(1,3) by simp
  have hv: "map_of ?logs ''val_loss'' = Some (?v j)"
    using logs Suc.prems(5) by simp
  show ?case
  proof (cases "?stop j")
    case True
    have st: "on_epoch_end fw j ?logs (cb, ?m1) = (?cb1\<lparr>stopped_epoch := j\<rparr>, ?m1\<lparr>stop_training := True\<rparr>)"
      by (simp only: step if_P[OF True])
    have loop: "fit_loop fw x val j (Suc k) (m, [cb]) = (?m1\<lparr>stop_training := True\<rparr>, [?cb1\<lparr>stopped_epoch := j\<rparr>])"
      using st w' Suc.prems(1) by (simp add: Let_def del: stale_epochs.simps best_before.simps weights_after.simps)
    have er: "epochs_run ?stop j (Suc k) = Suc j"
      by (simp only: epochs_run.simps if_P[OF True])
    show ?thesis
      unfolding loop er
      using Suc.prems(1,5,6) hv
      by (intro exI[of _ "?m1\<lparr>stop_training := True\<rparr>"] exI[of _ "?cb1\<lparr>stopped_epoch := j\<rparr>"])
        (simp del: stale_epochs.simps best_before.simps weights_after.simps)
  next
    case False
    have st: "on_epoch_end fw j ?logs (cb, ?m1) = (?cb1, ?m1)"
      by (simp only: step if_not_P[OF False])
    have loop: "fit_loop fw x val j (Suc k) (m, [cb]) = fit_loop fw x val (Suc j) k (?m1, [?cb1])"
      using st w' Suc.prems(1,4) by (simp add: Let_def del: stale_epochs.simps best_before.simps weights_after.simps)
    have "\<exists>m' cb'. fit_loop fw x val (Suc j) k (?m1, [?cb1]) = (m', [cb'])
       \<and> network m' = net
       \<and> weights m' = weights_after fw net x w0 (epochs_run ?stop (Suc j) k)
       \<and> map (\<lambda>l. map_of l ''val_loss'') (history m') =
           map (\<lambda>l. map_of l ''val_loss'') (history ?m1)
           @ map (\<lambda>i. Some (?v i)) [Suc j..<epochs_run ?stop (Suc j) k]
       \<and> monitor cb' = ''val_loss'' \<and> patience cb' = p"
      using Suc.prems by (intro Suc.IH) (simp_all del: stale_epochs.simps best_before.simps weights_after.simps)
    then obtain m' cb' where r: "fit_loop fw x val (Suc j) k (?m1, [?cb1]) = (m', [cb'])"
      "network m' = net"
      "weights m' = weights_after fw net x w0 (epochs_run ?stop (Suc j) k)"
      "map (\<lambda>l. map_of l ''val_loss'') (history m') =
           map (\<lambda>l. map_of l ''val_loss'') (history ?m1)
           @ map (\<lambda>i. Some (?v i)) [Suc j..<epochs_run ?stop (Suc j) k]"
      "monitor cb' = ''val_loss''" "patience cb' = p"
      by blast
    have le: "Suc j \<le> epochs_run ?stop (Suc j) k"
      using epochs_run_bounds[of "Suc j" ?stop k] by simp
    have range: "[j..<epochs_run ?stop (Suc j) k] = j # [Suc j..<epochs_run ?stop (Suc j) k]"
      using le by (simp add: upt_conv_Cons)
    have er: "epochs_run ?stop j (Suc k) = epochs_run ?stop (Suc j) k"
      by (simp only: epochs_run.simps if_not_P[OF False])
    show ?thesis
      unfolding loop er range
      using r hv
      by (intro exI[of _ m'] exI[of _ cb'])
        (simp del: fit_loop.simps stale_epochs.simps best_before.simps weights_after.simps)
  qed
qed


lemma layers_of_foldl:
  "layers_of (foldl (\<lambda>h n. Apply (f n) h) t ns) = layers_of t @ map f ns"
  by (induction ns arbitrary: t) simp_all

lemma input_of_foldl:
  "input_of (foldl (\<lambda>h n. Apply (f n) h) t ns) = input_of t"
  by (induction ns arbitrary: t) simp_all

lemma Model_fit_single:
  assumes "net_metrics (network m0) = [SparseCategoricalAccuracy ''accuracy'']"
  shows "\<exists>m cb. Model_fit fw m0 x n val [EarlyStopping_new fw ''val_loss'' p] = (m, [cb])
     \<and> network m = network m0
     \<and> weights m = weights_after fw (network m0) x (weights m0)
         (epochs_run (\<lambda>i. p \<le> int (stale_epochs fw (val_loss_at fw (network m0) x val (weights m0)) (Suc i)) \<and> 0 < i) 0 (nat n))
     \<and> map (\<lambda>l. map_of l ''val_loss'') (history m) =
         map (\<lambda>l. map_of l ''val_loss'') (history m0)
         @ map (\<lambda>i. Some (val_loss_at fw (network m0) x val (weights m0) i))
             [0..<epochs_run (\<lambda>i. p \<le> int (stale_epochs fw (val_loss_at fw (network m0) x val (weights m0)) (Suc i)) \<and> 0 < i) 0 (nat n)]
     \<and> monitor cb = ''val_loss'' \<and> patience cb = p"
proof -
  have "\<exists>m cb. fit_loop fw x val 0 (nat n)
          (m0\<lparr>stop_training := False\<rparr>, [on_train_begin fw (EarlyStopping_new fw ''val_loss'' p)]) = (m, [cb])
     \<and> network m = network m0
     \<and> weights m = weights_after fw (network m0) x (weights m0)
         (epochs_run (\<lambda>i. p \<le> int (stale_epochs fw (val_loss_at fw (network m0) x val (weights m0)) (Suc i)) \<and> 0 < i) 0 (nat n))
     \<and> map (\<lambda>l. map_of l ''val_loss'') (history m) =
         map (\<lambda>l. map_of l ''val_loss'') (history (m0\<lparr>stop_training := False\<rparr>))
         @ map (\<lambda>i. Some (val_loss_at fw (network m0) x val (weights m0) i))
             [0..<epochs_run (\<lambda>i. p \<le> int (stale_epochs fw (val_loss_at fw (network m0) x val (weights m0)) (Suc i)) \<and> 0 < i) 0 (nat n)]
     \<and> monitor cb = ''val_loss'' \<and> patience cb = p"
    using assms
    by (intro fit_loop_single) (simp_all add: on_train_begin_def EarlyStopping_new_def)
  then show ?thesis by (simp add: Model_fit_def)
qed

lemma early_stop_characterised:
  fixes fw :: "('w, 'f) Backend" and v :: "nat \<Rightarrow> 'f" and e :: nat
  defines "n \<equiv> epochs_run (\<lambda>i. 5 \<le> int (stale_epochs fw v (Suc i)) \<and> 0 < i) 0 e"
  shows "n \<le> e \<and> (n < e \<longrightarrow> no_improvement_for fw v 5 n) \<and> (\<forall>k<n. \<not> no_improvement_for fw v 5 k)"
proof -
  define stop where "stop = (\<lambda>i. 5 \<le> int (stale_epochs fw v (Suc i)) \<and> 0 < i)"
  have n: "n = epochs_run stop 0 e" by (simp only: n_def stop_def)
  have a: "n \<le> e" using epochs_run_bounds[of 0 stop e] by (simp add: n)
  have b: "no_improvement_for fw v 5 n" if "n < e"
  proof -
    have "epochs_run stop 0 e < 0 + e" using that by (simp add: n)
    from epochs_run_stopped[OF this] have pos: "0 < n" and st: "stop (n - 1)"
      by (simp_all only: n[symmetric])
    from pos obtain i where i: "n = Suc i" by (cases n) simp_all
    from st have "5 \<le> int (stale_epochs fw v (Suc i))"
      unfolding stop_def i by (simp del: stale_epochs.simps)
    then have "5 \<le> stale_epochs fw v n" unfolding i by linarith
    then show ?thesis by (simp only: stale_epochs_iff)
  qed
  have c: "\<not> no_improvement_for fw v 5 k" if "k < n" for k
  proof (cases k)
    case 0
    then show ?thesis by (simp add: no_improvement_for_def)
  next
    case (Suc i)
    have "Suc i < epochs_run stop 0 e" using that by (simp only: Suc n)
    then have ns: "\<not> stop i" by (intro epochs_run_continued[of 0 i stop e]) simp_all
    have one: "stale_epochs fw v (Suc 0) \<le> Suc 0" by (rule stale_epochs_le)
    have "\<not> 5 \<le> stale_epochs fw v (Suc i)"
    proof (cases "i = 0")
      case True
      then show ?thesis using one by (simp del: stale_epochs.simps)
    next
      case False
      then show ?thesis using ns unfolding stop_def by (simp del: stale_epochs.simps)
    qed
    then show ?thesis by (simp add: Suc stale_epochs_iff[symmetric] del: stale_epochs.simps)
  qed
  show ?thesis using a b c by blast
qed

section \<open>Properties of the main program\<close>

lemma main_run:
  fixes fw :: "('w, 'f) Backend"
  defines "shape \<equiv> \<lambda>info. feature_shape info ''image''"
  defines "outs \<equiv> \<lambda>info (hp :: (int, int, int list) HyperParams).
      Apply (Dense 10 (Some Softmax) None)
        (Apply (Dropout (1 / 2))
          (foldl (\<lambda>h n. Apply (Dense n (Some Relu) (Some ''l2'')) h)
             (Apply Flatten (Input (shape info))) (hidden_layers hp)))"
  defines "net \<equiv> \<lambda>info hp. \<lparr>net_inputs = Input (shape info), net_outputs = outs info hp,
      net_optimizer = Some Adam, net_loss = Some SparseCategoricalCrossentropy,
      net_metrics = [SparseCategoricalAccuracy ''accuracy'']\<rparr>"
  shows "\<exists>train dev test m cb.
      prepare_data info hp = Inr (train, dev, test, info)
    \<and> main fw info hp =
        Inr \<lparr>v_hp = hp, v_train = train, v_dev = dev, v_test = test, v_info = info, v_model = m,
             v_stop_early = cb, v_callbacks = [cb],
             v_test_loss = eval_loss fw (net info hp) test (weights m),
             v_test_acc = eval_metric fw (net info hp) (SparseCategoricalAccuracy ''accuracy'') test (weights m),
             stdout = [[PStr ''test loss, test acc:'',
                        PFloat (eval_loss fw (net info hp) test (weights m)),
                        PFloat (eval_metric fw (net info hp) (SparseCategoricalAccuracy ''accuracy'') test (weights m))]]\<rparr>
    \<and> Model_fit fw
          (Model_compile Adam SparseCategoricalCrossentropy [SparseCategoricalAccuracy ''accuracy'']
             (Model_new fw (Input (shape info)) (outs info hp)))
          train (epochs hp) dev [EarlyStopping_new fw ''val_loss'' 5] = (m, [cb])
    \<and> network m = net info hp
    \<and> weights m = weights_after fw (net info hp) train (init_weights fw (outs info hp))
         (epochs_run (\<lambda>i. 5 \<le> int (stale_epochs fw
              (val_loss_at fw (net info hp) train dev (init_weights fw (outs info hp))) (Suc i)) \<and> 0 < i)
            0 (nat (epochs hp)))
    \<and> map (\<lambda>l. map_of l ''val_loss'') (history m) =
         map (\<lambda>i. Some (val_loss_at fw (net info hp) train dev (init_weights fw (outs info hp)) i))
           [0..<epochs_run (\<lambda>i. 5 \<le> int (stale_epochs fw
              (val_loss_at fw (net info hp) train dev (init_weights fw (outs info hp))) (Suc i)) \<and> 0 < i)
            0 (nat (epochs hp))]
    \<and> monitor cb = ''val_loss'' \<and> patience cb = 5"
proof -
  obtain train dev test where pd: "prepare_data info hp = Inr (train, dev, test, info)"
    using prepare_data_result[of info hp] by blast
  let ?m0 = "Model_compile Adam SparseCategoricalCrossentropy [SparseCategoricalAccuracy ''accuracy'']
             (Model_new fw (Input (shape info)) (outs info hp)) :: ('w, 'f) Model"
  have n0: "network ?m0 = net info hp" and w0: "weights ?m0 = init_weights fw (outs info hp)"
    and h0: "history ?m0 = []"
    by (simp_all add: Model_compile_def Model_new_def net_def)
  have ms: "net_metrics (network ?m0) = [SparseCategoricalAccuracy ''accuracy'']"
    by (simp add: n0 net_def)
  from Model_fit_single[OF ms, of fw train "epochs hp" dev 5]
  obtain m cb where fit: "Model_fit fw ?m0 train (epochs hp) dev [EarlyStopping_new fw ''val_loss'' 5] = (m, [cb])"
    and r: "network m = network ?m0"
      "weights m = weights_after fw (network ?m0) train (weights ?m0)
         (epochs_run (\<lambda>i. 5 \<le> int (stale_epochs fw (val_loss_at fw (network ?m0) train dev (weights ?m0)) (Suc i)) \<and> 0 < i) 0 (nat (epochs hp)))"
      "map (\<lambda>l. map_of l ''val_loss'') (history m) =
         map (\<lambda>l. map_of l ''val_loss'') (history ?m0)
         @ map (\<lambda>i. Some (val_loss_at fw (network ?m0) train dev (weights ?m0) i))
             [0..<epochs_run (\<lambda>i. 5 \<le> int (stale_epochs fw (val_loss_at fw (network ?m0) train dev (weights ?m0)) (Suc i)) \<and> 0 < i) 0 (nat (epochs hp))]"
      "monitor cb = ''val_loss''" "patience cb = 5"
    by blast
  have nm: "network m = net info hp" using r(1) n0 by simp
  have ev: "Model_evaluate fw m test =
      [eval_loss fw (net info hp) test (weights m),
       eval_metric fw (net info hp) (SparseCategoricalAccuracy ''accuracy'') test (weights m)]"
    by (simp add: Model_evaluate_def nm) (simp add: net_def)
  have fit': "Model_fit fw
      (Model_compile Adam SparseCategoricalCrossentropy [SparseCategoricalAccuracy ''accuracy'']
        (Model_new fw (Input (feature_shape info ''image''))
          (Apply (Dense 10 (Some Softmax) None)
            (Apply (Dropout (1 / 2))
              (foldl (\<lambda>hidden hidden_size. Apply (Dense hidden_size (Some Relu) (Some ''l2'')) hidden)
                 (Apply Flatten (Input (feature_shape info ''image''))) (hidden_layers hp))))))
      train (epochs hp) dev [EarlyStopping_new fw ''val_loss'' 5] = (m, [cb])"
    using fit by (simp only: shape_def outs_def)
  have mn: "main fw info hp =
        Inr \<lparr>v_hp = hp, v_train = train, v_dev = dev, v_test = test, v_info = info, v_model = m,
             v_stop_early = cb, v_callbacks = [cb],
             v_test_loss = eval_loss fw (net info hp) test (weights m),
             v_test_acc = eval_metric fw (net info hp) (SparseCategoricalAccuracy ''accuracy'') test (weights m),
             stdout = [[PStr ''test loss, test acc:'',
                        PFloat (eval_loss fw (net info hp) test (weights m)),
                        PFloat (eval_metric fw (net info hp) (SparseCategoricalAccuracy ''accuracy'') test (weights m))]]\<rparr>"
    unfolding main_def pd by (simp add: Let_def fit' ev)
  show ?thesis
    using pd mn fit nm r(2,3,4,5) unfolding n0 w0 h0
    by (intro exI[of _ train] exI[of _ dev] exI[of _ test] exI[of _ m] exI[of _ cb]) simp
qed


text \<open>
  C2. For every HyperParams record \<open>hp\<close>, \<open>main\<close> ends with a model whose graph leads
  from the input of the image's shape through, in order: a flatten layer, then one dense
  layer with ReLU activation and L2 kernel regularisation per entry of
  \<open>hp.hidden_layers\<close> (of the width of that entry, in the order of the sequence), then a
  dropout layer of rate one half, then a dense layer of 10 units with softmax activation.
\<close>

theorem main_network:
  "\<exists>st. main fw info hp = Inr st
     \<and> net_inputs (network (v_model st)) = Input (feature_shape info ''image'')
     \<and> input_of (net_outputs (network (v_model st))) = feature_shape info ''image''
     \<and> layers_of (net_outputs (network (v_model st))) =
         Flatten
           # map (\<lambda>n. Dense n (Some Relu) (Some ''l2'')) (hidden_layers hp)
           @ [Dropout (1 / 2), Dense 10 (Some Softmax) None]
     \<and> units (last (layers_of (net_outputs (network (v_model st))))) = Some 10"
proof -
  from main_run[of info hp fw] obtain st m where
    "main fw info hp = Inr st" "v_model st = m"
    "network m = \<lparr>net_inputs = Input (feature_shape info ''image''),
       net_outputs = Apply (Dense 10 (Some Softmax) None)
        (Apply (Dropout (1 / 2))
          (foldl (\<lambda>h n. Apply (Dense n (Some Relu) (Some ''l2'')) h)
             (Apply Flatten (Input (feature_shape info ''image''))) (hidden_layers hp))),
       net_optimizer = Some Adam, net_loss = Some SparseCategoricalCrossentropy,
       net_metrics = [SparseCategoricalAccuracy ''accuracy'']\<rparr>"
    by force
  then show ?thesis
    by (intro exI[of _ st]) (simp add: layers_of_foldl input_of_foldl)
qed

text \<open>
  C8. After training, \<open>main\<close> evaluates the model that \<open>fit\<close> left on the test
  pipeline, which reads the whole of the separate test split, and prints one line: the
  label, then the loss and the accuracy that the evaluation returned. The script takes
  nothing from its command line: run as the main module, it calls \<open>main\<close> with the
  hyperparameters \<open>HyperParams(100, 20, [100, 100])\<close> whatever the arguments are.
\<close>

theorem main_evaluates_and_prints:
  "\<exists>st. main fw info hp = Inr st
     \<and> (\<exists>train dev. prepare_data info hp = Inr (train, dev, v_test st, info))
     \<and> Dataset_examples info (v_test st) = map (Pair ''test'') [0..<num_examples info ''test'']
     \<and> (v_model st, v_callbacks st) =
         Model_fit fw
           (Model_compile Adam SparseCategoricalCrossentropy [SparseCategoricalAccuracy ''accuracy'']
              (Model_new fw (net_inputs (network (v_model st))) (net_outputs (network (v_model st)))))
           (v_train st) (epochs hp) (v_dev st) [EarlyStopping_new fw ''val_loss'' 5]
     \<and> Model_evaluate fw (v_model st) (v_test st) = [v_test_loss st, v_test_acc st]
     \<and> v_test_loss st = eval_loss fw (network (v_model st)) (v_test st) (weights (v_model st))
     \<and> v_test_acc st = eval_metric fw (network (v_model st)) (SparseCategoricalAccuracy ''accuracy'')
                          (v_test st) (weights (v_model st))
     \<and> stdout st = [[PStr ''test loss, test acc:'', PFloat (v_test_loss st), PFloat (v_test_acc st)]]
     \<and> script fw info ''__main__'' argv = Some (main fw info (HyperParams_new 100 20 [100, 100]))"
proof -
  from main_run[of info hp fw] obtain train dev test m cb where
    pd: "prepare_data info hp = Inr (train, dev, test, info)"
    and mn: "main fw info hp =
        Inr \<lparr>v_hp = hp, v_train = train, v_dev = dev, v_test = test, v_info = info, v_model = m,
             v_stop_early = cb, v_callbacks = [cb],
             v_test_loss = eval_loss fw (network m) test (weights m),
             v_test_acc = eval_metric fw (network m) (SparseCategoricalAccuracy ''accuracy'') test (weights m),
             stdout = [[PStr ''test loss, test acc:'',
                        PFloat (eval_loss fw (network m) test (weights m)),
                        PFloat (eval_metric fw (network m) (SparseCategoricalAccuracy ''accuracy'') test (weights m))]]\<rparr>"
    and fit: "Model_fit fw
          (Model_compile Adam SparseCategoricalCrossentropy [SparseCategoricalAccuracy ''accuracy'']
             (Model_new fw (net_inputs (network m)) (net_outputs (network m))))
          train (epochs hp) dev [EarlyStopping_new fw ''val_loss'' 5] = (m, [cb])"
    and ms: "net_metrics (network m) = [SparseCategoricalAccuracy ''accuracy'']"
    by force
  have ex: "Dataset_examples info test = map (Pair ''test'') [0..<num_examples info ''test'']"
    using pd unfolding prepare_data_result by (auto simp: Dataset_examples_def)
  show ?thesis
    using pd mn fit ms ex
    by (intro exI[of _ "projr (main fw info hp)"]) (simp add: Model_evaluate_def script_def)
qed

subsection \<open>A backend whose validation loss stops improving\<close>

lemma plateau_weights: "weights_after plateau_backend net x w0 j = w0 + j"
  by (induction j) (simp_all add: plateau_backend_def)

lemma plateau_val_loss:
  "val_loss_at plateau_backend net x val (init_weights plateau_backend t) = (\<lambda>j. if j = 0 then 9 else 8)"
  by (rule ext) (simp add: val_loss_at_def plateau_weights, simp add: plateau_backend_def)

lemma plateau_stale:
  "no_improvement_for plateau_backend (\<lambda>j. if j = 0 then 9 else 8) 5 7"
  "\<not> no_improvement_for plateau_backend (\<lambda>j. if j = 0 then 9 else 8) 5 6"
  "\<not> no_improvement_for plateau_backend (\<lambda>j. if j = 0 then 9 else 8) 5 5"
  by code_simp+

text \<open>
  C5. \<open>main\<close> hands the training to the fitting loop of the library, with
  \<open>hp.epochs\<close> as the number of epochs, the dev pipeline as validation data and a
  single callback: early stopping that monitors \<open>val_loss\<close> with a patience of 5. The
  loop runs at most \<open>hp.epochs\<close> epochs, and the value monitored at each epoch is the
  loss on the dev pipeline. The loop ends before \<open>hp.epochs\<close> epochs only when the
  validation loss has not improved in the last 5 epochs, and it never goes on after 5
  epochs in a row without improvement.
\<close>

theorem main_training:
  "\<exists>st. main fw info hp = Inr st
     \<and> (v_model st, v_callbacks st) =
         Model_fit fw
           (Model_compile Adam SparseCategoricalCrossentropy [SparseCategoricalAccuracy ''accuracy'']
              (Model_new fw (net_inputs (network (v_model st))) (net_outputs (network (v_model st)))))
           (v_train st) (epochs hp) (v_dev st) [EarlyStopping_new fw ''val_loss'' 5]
     \<and> v_callbacks st = [v_stop_early st]
     \<and> monitor (v_stop_early st) = ''val_loss'' \<and> patience (v_stop_early st) = 5
     \<and> (let net = network (v_model st);
             w0 = init_weights fw (net_outputs net);
             v = val_loss_at fw net (v_train st) (v_dev st) w0;
             n = length (history (v_model st))
         in n \<le> nat (epochs hp)
            \<and> weights (v_model st) = weights_after fw net (v_train st) w0 n
            \<and> map (\<lambda>l. map_of l ''val_loss'') (history (v_model st)) = map (\<lambda>j. Some (v j)) [0..<n]
            \<and> (n < nat (epochs hp) \<longrightarrow> no_improvement_for fw v 5 n)
            \<and> (\<forall>k<n. \<not> no_improvement_for fw v 5 k))"
proof -
  from main_run[of info hp fw] obtain train dev test m cb where
    mn: "main fw info hp =
        Inr \<lparr>v_hp = hp, v_train = train, v_dev = dev, v_test = test, v_info = info, v_model = m,
             v_stop_early = cb, v_callbacks = [cb],
             v_test_loss = eval_loss fw (network m) test (weights m),
             v_test_acc = eval_metric fw (network m) (SparseCategoricalAccuracy ''accuracy'') test (weights m),
             stdout = [[PStr ''test loss, test acc:'',
                        PFloat (eval_loss fw (network m) test (weights m)),
                        PFloat (eval_metric fw (network m) (SparseCategoricalAccuracy ''accuracy'') test (weights m))]]\<rparr>"
    and fit: "Model_fit fw
          (Model_compile Adam SparseCategoricalCrossentropy [SparseCategoricalAccuracy ''accuracy'']
             (Model_new fw (net_inputs (network m)) (net_outputs (network m))))
          train (epochs hp) dev [EarlyStopping_new fw ''val_loss'' 5] = (m, [cb])"
    and w: "weights m = weights_after fw (network m) train (init_weights fw (net_outputs (network m)))
         (epochs_run (\<lambda>i. 5 \<le> int (stale_epochs fw
              (val_loss_at fw (network m) train dev (init_weights fw (net_outputs (network m)))) (Suc i)) \<and> 0 < i)
            0 (nat (epochs hp)))"
    and h: "map (\<lambda>l. map_of l ''val_loss'') (history m) =
         map (\<lambda>i. Some (val_loss_at fw (network m) train dev (init_weights fw (net_outputs (network m))) i))
           [0..<epochs_run (\<lambda>i. 5 \<le> int (stale_epochs fw
              (val_loss_at fw (network m) train dev (init_weights fw (net_outputs (network m)))) (Suc i)) \<and> 0 < i)
            0 (nat (epochs hp))]"
    and cb: "monitor cb = ''val_loss''" "patience cb = 5"
    by force
  define v where "v = val_loss_at fw (network m) train dev (init_weights fw (net_outputs (network m)))"
  define n where "n = epochs_run (\<lambda>i. 5 \<le> int (stale_epochs fw v (Suc i)) \<and> 0 < i) 0 (nat (epochs hp))"
  have len: "length (history m) = n"
    using arg_cong[OF h, of length] by (simp add: n_def v_def)
  have ch: "n \<le> nat (epochs hp) \<and> (n < nat (epochs hp) \<longrightarrow> no_improvement_for fw v 5 n)
      \<and> (\<forall>k<n. \<not> no_improvement_for fw v 5 k)"
    unfolding n_def by (rule early_stop_characterised)
  show ?thesis
    using mn fit cb len ch w[folded v_def, folded n_def] h[folded v_def, folded n_def]
    by (intro exI[of _ "projr (main fw info hp)"]) (simp add: Let_def v_def[symmetric])
qed

theorem main_training_witness:
  "length (history (v_model (projr (main plateau_backend mnist_info (HyperParams_new 100 20 [100, 100]))))) = 7
   \<and> (7::nat) < nat (epochs (HyperParams_new (100::int) (20::int) [100::int, 100]))
   \<and> no_improvement_for plateau_backend (\<lambda>j. if j = 0 then 9 else 8) 5 7
   \<and> \<not> no_improvement_for plateau_backend (\<lambda>j. if j = 0 then 9 else 8) 5 6"
proof -
  let ?hp = "HyperParams_new (100::int) (20::int) [100::int, 100]"
  let ?v = "\<lambda>j::nat. if j = 0 then 9 else (8::int)"
  from main_training[of plateau_backend mnist_info ?hp]
  obtain st where mn: "main plateau_backend mnist_info ?hp = Inr st"
    and le: "length (history (v_model st)) \<le> nat (epochs ?hp)"
    and halt: "length (history (v_model st)) < nat (epochs ?hp)
        \<longrightarrow> no_improvement_for plateau_backend ?v 5 (length (history (v_model st)))"
    and cont: "\<forall>k<length (history (v_model st)). \<not> no_improvement_for plateau_backend ?v 5 k"
    unfolding Let_def plateau_val_loss by blast
  define n where "n = length (history (v_model st))"
  have e: "nat (epochs ?hp) = 20" by (simp add: HyperParams_new_def)
  have n7: "n \<le> 7"
  proof (rule ccontr)
    assume "\<not> n \<le> 7"
    then have "7 < n" by simp
    then show False using cont plateau_stale(1) by (simp add: n_def)
  qed
  then have "no_improvement_for plateau_backend ?v 5 n"
    using halt e by (simp add: n_def)
  moreover have "\<not> no_improvement_for plateau_backend ?v 5 k" if "k < 5" for k
    using that by (simp add: no_improvement_for_def)
  ultimately have "n = 7"
  proof -
    assume a: "no_improvement_for plateau_backend ?v 5 n"
      and b: "\<And>k. k < 5 \<Longrightarrow> \<not> no_improvement_for plateau_backend ?v 5 k"
    consider "n < 5" | "n = 5" | "n = 6" | "n = 7" using n7 by linarith
    then show ?thesis
    proof cases
      case 1 then show ?thesis using a b by blast
    next
      case 2 then show ?thesis using a plateau_stale(3) by simp
    next
      case 3 then show ?thesis using a plateau_stale(2) by simp
    next
      case 4 then show ?thesis .
    qed
  qed
  then show ?thesis
    using mn e plateau_stale by (simp add: n_def)
qed

section \<open>Properties of the hyperparameter record\<close>

text \<open>
  C7. For every triple of values \<open>(b, e, h)\<close>, the record constructed by
  \<open>HyperParams(b, e, h)\<close> has \<open>batch_size = b\<close>, \<open>epochs = e\<close> and
  \<open>hidden_layers = h\<close>. The record is a value with these three fields and nothing else:
  every record is the construction from its own fields. The fields do not change after
  construction: when \<open>main\<close> has run on a constructed record, its parameter \<open>hp\<close>
  still is that record, with the three values it was constructed from.
\<close>

theorem HyperParams_new_fields:
  "batch_size (HyperParams_new b e h) = b
   \<and> epochs (HyperParams_new b e h) = e
   \<and> hidden_layers (HyperParams_new b e h) = h
   \<and> HyperParams_new (batch_size hp) (epochs hp) (hidden_layers hp) = (hp :: ('b, 'e, 'h) HyperParams)
   \<and> (\<exists>st. main fw info (HyperParams_new bi ei hi) = Inr st
         \<and> v_hp st = HyperParams_new bi ei hi
         \<and> batch_size (v_hp st) = bi \<and> epochs (v_hp st) = ei \<and> hidden_layers (v_hp st) = hi)"
proof -
  from main_run[of info "HyperParams_new bi ei hi" fw]
  obtain st where "main fw info (HyperParams_new bi ei hi) = Inr st"
    "v_hp st = HyperParams_new bi ei hi"
    by force
  then show ?thesis by (auto simp: HyperParams_new_def)
qed

end
